theory Spec2Isabelle
  imports Main "HOL-Library.Multiset"
begin

section \<open>Data model\<close>

text \<open>
  The instance-lifecycle code of the Alibaba Cloud machine actuator (package
  \<open>machine\<close>): tags, instance records as the provider reports them, and the
  errors the functions return. Go strings are \<open>string\<close>; the empty string is
  the zero value of a field that was never set.
\<close>

text \<open>\<open>machinev1.Tag\<close>, and the request tag structs of the SDK, which have
  the same two fields (\<open>ecs.RunInstancesTag\<close>, \<open>ecs.DescribeSecurityGroupsTag\<close>,
  \<open>ecs.TagResourcesTag\<close>).\<close>

record Tag =
  Key :: string
  Value :: string

text \<open>\<open>ecs.Tag\<close>, an element of \<open>instance.Tags.Tag\<close>.\<close>

record InstanceTag =
  TagKey :: string
  TagValue :: string

text \<open>\<open>ecs.Instance\<close>, with the fields this code reads.\<close>

record Instance =
  InstanceId :: string
  Status :: string
  StartTime :: string
  InstanceTags :: "InstanceTag list"

text \<open>
  The errors built with \<open>fmt.Errorf\<close> and \<open>errors.New\<close>, one constructor for
  each message, carrying the values the message is formatted from. An error of the
  SDK client is its text (\<open>err.Error()\<close>).
\<close>

datatype err =
    NoSecurityConfiguration
  | NoSecurityGroupIDsFound
  | ErrorDescribingSecurityGroup string
  | NoSecurityGroupForTags
  | ErrorDescribingImages string
  | NoImageFound
  | InvalidImageStatus string string
  | NoVSwitchConfiguration
  | NoVSwitchFound
  | ErrorDescribingVSwitches string
  | NoVSwitchesForTags
  | InstanceIdsNotSpecified
  | InstanceNilID
  | InstanceNilState string
  | InstanceStateNotIn string string "string list"
  | InstancesNotExist "string list"
  | ErrorStoppingInstances string
  | UnexpectedNilInstance
  | UnableToGetClusterID string
  | ClientError string

text \<open>
  \<open>runtimeclient.ObjectKey\<close> and the part of \<open>machinev1beta1.Machine\<close> that is
  read: its name, its namespace and its labels.
\<close>

record ObjectKey =
  Name :: string
  Namespace :: string

record Machine = ObjectKey +
  Labels :: "string \<rightharpoonup> string"

text \<open>
  What the functions use and another file of the package declares: the tag keys
  and values, and the helper \<open>getClusterID\<close>, which returns the cluster ID of a
  machine and whether it has one (\<open>None\<close> when it has none). With them, the
  constants of the API package \<open>machinev1\<close>. They are parameters: every theorem
  holds for every value of them.
\<close>

record Pkg =
  clusterFilterKeyPrefix :: string
  clusterFilterValue :: string
  clusterFilterName :: string
  clusterOwnedKey :: string
  clusterOwnedValue :: string
  machineTagKeyFrom :: string
  machineTagValueFrom :: string
  machineIsvIntegrationTagKey :: string
  getClusterID :: "Machine \<Rightarrow> string option"
  DefaultTenancy :: string
  HostTenancy :: string
  AlibabaDiskEncryptionEnabled :: string
  DeleteWithInstance :: string

definition ECSInstanceStatusRunning :: string where
  "ECSInstanceStatusRunning = ''Running''"

definition EcsImageStatusAvailable :: string where
  "EcsImageStatusAvailable = ''Available''"

definition ECSTagResourceTypeInstance :: string where
  "ECSTagResourceTypeInstance = ''instance''"

definition InstanceDefaultTimeout :: int where
  "InstanceDefaultTimeout = 900"

section \<open>Tags\<close>

text \<open>\<open>strings.HasPrefix\<close>:
  \<open>len(s) >= len(prefix) && s[0:len(prefix)] == prefix\<close>.\<close>

definition HasPrefix :: "string \<Rightarrow> string \<Rightarrow> bool" where
  "HasPrefix s pre = (length pre \<le> length s \<and> take (length pre) s = pre)"

text \<open>
  \<open>removeDuplicatedTags\<close>: the loop over \<open>tags\<close> with the map \<open>m\<close> of the
  keys seen and the slice \<open>result\<close>; \<open>_, value := m[entry.Key]\<close> reads whether
  the key is present.
\<close>

fun removeDuplicatedTags_loop ::
  "(string \<rightharpoonup> bool) \<Rightarrow> Tag list \<Rightarrow> Tag list \<Rightarrow> Tag list" where
  "removeDuplicatedTags_loop m result [] = result"
| "removeDuplicatedTags_loop m result (entry # tags) =
     (if m (Key entry) = None
      then removeDuplicatedTags_loop (m(Key entry \<mapsto> True)) (result @ [entry]) tags
      else removeDuplicatedTags_loop m result tags)"

definition removeDuplicatedTags :: "Tag list \<Rightarrow> Tag list" where
  "removeDuplicatedTags tags = removeDuplicatedTags_loop Map.empty [] tags"

text \<open>
  \<open>buildTagList\<close>: the loop that copies the machine's tags whose key is neither
  under the cluster prefix nor the name key, then the five generated tags, then
  the deduplication.
\<close>

fun buildTagList_loop :: "Pkg \<Rightarrow> Tag list \<Rightarrow> Tag list \<Rightarrow> Tag list" where
  "buildTagList_loop K rawTagList [] = rawTagList"
| "buildTagList_loop K rawTagList (tag # machineTags) =
     (if \<not> HasPrefix (Key tag) (clusterFilterKeyPrefix K) \<and> Key tag \<noteq> clusterFilterName K
      then buildTagList_loop K (rawTagList @ [\<lparr>Key = Key tag, Value = Value tag\<rparr>]) machineTags
      else buildTagList_loop K rawTagList machineTags)"

definition generatedTags :: "Pkg \<Rightarrow> string \<Rightarrow> string \<Rightarrow> Tag list" where
  "generatedTags K machineName clusterID =
     [\<lparr>Key = clusterFilterKeyPrefix K @ clusterID, Value = clusterFilterValue K\<rparr>,
      \<lparr>Key = clusterFilterName K, Value = machineName\<rparr>,
      \<lparr>Key = clusterOwnedKey K, Value = clusterOwnedValue K\<rparr>,
      \<lparr>Key = machineTagKeyFrom K, Value = machineTagValueFrom K\<rparr>,
      \<lparr>Key = machineIsvIntegrationTagKey K, Value = machineTagValueFrom K\<rparr>]"

definition buildTagList :: "Pkg \<Rightarrow> string \<Rightarrow> string \<Rightarrow> Tag list \<Rightarrow> Tag list" where
  "buildTagList K machineName clusterID machineTags =
     removeDuplicatedTags
       (buildTagList_loop K [] machineTags @ generatedTags K machineName clusterID)"

text \<open>\<open>covertToRunInstancesTag\<close>: one request tag for each tag, in order.\<close>

fun covertToRunInstancesTag_loop :: "Tag list \<Rightarrow> Tag list \<Rightarrow> Tag list" where
  "covertToRunInstancesTag_loop runInstancesTags [] = runInstancesTags"
| "covertToRunInstancesTag_loop runInstancesTags (tag # tags) =
     covertToRunInstancesTag_loop
       (runInstancesTags @ [\<lparr>Key = Key tag, Value = Value tag\<rparr>]) tags"

definition covertToRunInstancesTag :: "Tag list \<Rightarrow> Tag list" where
  "covertToRunInstancesTag tags = covertToRunInstancesTag_loop [] tags"

section \<open>Supported states\<close>

text \<open>
  \<open>instanceHasSupportedState\<close> returns an \<open>error\<close>: \<open>None\<close> is \<open>nil\<close>.
  The first loop looks the status up in \<open>instanceStates\<close>; the second copies the
  list into the error message.
\<close>

fun stateIsSupported :: "string \<Rightarrow> string list \<Rightarrow> bool" where
  "stateIsSupported actualState [] = False"
| "stateIsSupported actualState (supportedState # instanceStates) =
     (if supportedState = actualState then True
      else stateIsSupported actualState instanceStates)"

fun copyStates :: "string list \<Rightarrow> string list \<Rightarrow> string list" where
  "copyStates supportedStates [] = supportedStates"
| "copyStates supportedStates (allowedState # instanceStates) =
     copyStates (supportedStates @ [allowedState]) instanceStates"

definition instanceHasSupportedState :: "Instance \<Rightarrow> string list \<Rightarrow> err option" where
  "instanceHasSupportedState instance instanceStates =
     (if InstanceId instance = [] then Some InstanceNilID
      else if Status instance = [] then Some (InstanceNilState (InstanceId instance))
      else if length instanceStates = 0 then None
      else if stateIsSupported (Status instance) instanceStates then None
      else Some (InstanceStateNotIn (InstanceId instance) (Status instance)
                  (copyStates [] instanceStates)))"

section \<open>The provider client\<close>

text \<open>
  \<open>machinev1.AlibabaCloudMachineProviderConfig\<close>. The nested structs
  \<open>Bandwidth\<close>, \<open>SystemDisk\<close> and \<open>VSwitch\<close> are flattened, the path written
  with an underscore. A resource reference has an ID and a slice of tags, which
  is \<open>nil\<close> (\<open>None\<close>) when it was not given. The sizes and bandwidths are
  \<open>int64\<close>; no arithmetic is done on them, so they are integers here.
\<close>

record ResourceReference =
  ID :: string
  Tags :: "Tag list option"

record DataDiskProperties =
  dd_Size :: int
  dd_Category :: string
  dd_DiskEncryption :: string
  dd_Name :: string
  dd_SnapshotID :: string
  dd_PerformanceLevel :: string
  dd_KMSKeyID :: string
  dd_DiskPreservation :: string

record ProviderConfig =
  RegionID :: string
  ResourceGroupID :: string
  VpcID :: string
  ImageID :: string
  InstanceType :: string
  RAMRoleName :: string
  SecurityGroups :: "ResourceReference list"
  VSwitch_ID :: string
  VSwitch_Tags :: "Tag list option"
  Bandwidth_InternetMaxBandwidthOut :: int
  Bandwidth_InternetMaxBandwidthIn :: int
  SystemDisk_Category :: string
  SystemDisk_Size :: int
  SystemDisk_Name :: string
  SystemDisk_PerformanceLevel :: string
  DataDisks :: "DataDiskProperties list"
  Tenancy :: string
  ConfigTags :: "Tag list"

text \<open>
  The requests of the SDK, with the fields this code sets; a field keeps its
  name, after a prefix that tells the requests apart. A request is created with
  every field at its zero value: a string field that stays empty is not sent.
  \<open>requests.Integer\<close> is a string type, so a numeric field is the decimal
  text of its value, and empty when it was not set. \<open>InstanceIds\<close> of a
  describe-instances request is the JSON text of the list of IDs; the list
  stands for its text.
\<close>

record DescribeImagesRequest =
  img_ImageId :: string
  img_RegionId :: string
  img_ShowExpired :: string
  img_Scheme :: string

record DescribeSecurityGroupsRequest =
  sg_VpcId :: string
  sg_ResourceGroupId :: string
  sg_RegionId :: string
  sg_Tag :: "Tag list"
  sg_Scheme :: string

record DescribeVSwitchesRequest =
  vsw_Scheme :: string
  vsw_RegionId :: string
  vsw_VpcId :: string
  vsw_Tag :: "Tag list"

record RunInstancesDataDisk =
  rd_Size :: string
  rd_Category :: string
  rd_Encrypted :: string
  rd_DiskName :: string
  rd_SnapshotId :: string
  rd_PerformanceLevel :: string
  rd_KMSKeyId :: string
  rd_DeleteWithInstance :: string

record RunInstancesRequest =
  run_Scheme :: string
  run_RegionId :: string
  run_ResourceGroupId :: string
  run_SecurityGroupIds :: "string list"
  run_Tag :: "Tag list"
  run_ImageId :: string
  run_InstanceType :: string
  run_InstanceName :: string
  run_HostName :: string
  run_Amount :: string
  run_MinAmount :: string
  run_RamRoleName :: string
  run_InternetMaxBandwidthOut :: string
  run_InternetMaxBandwidthIn :: string
  run_VSwitchId :: string
  run_SystemDiskCategory :: string
  run_SystemDiskSize :: string
  run_SystemDiskDiskName :: string
  run_SystemDiskPerformanceLevel :: string
  run_DataDisk :: "RunInstancesDataDisk list option"
  run_UserData :: string
  run_Tenancy :: string

record DescribeInstancesRequest =
  di_RegionId :: string
  di_Scheme :: string
  di_InstanceIds :: "string list"

record StopInstancesRequest =
  stop_RegionId :: string
  stop_Scheme :: string
  stop_InstanceId :: "string list"

record TagResourcesRequest =
  tag_Scheme :: string
  tag_RegionId :: string
  tag_Tag :: "Tag list"
  tag_ResourceId :: "string list"
  tag_ResourceType :: string

text \<open>The parts of the responses that are read.\<close>

record Image =
  ImageId :: string
  ImageStatus :: string

record InstanceResponse =
  resp_InstanceId :: string
  resp_CurrentStatus :: string
  resp_PreviousStatus :: string

text \<open>
  \<open>alibabacloudClient.Client\<close>: each method answers a request with an error
  (its text, \<open>Inl\<close>) or a response. A describe call answers with the list of
  the response (images, IDs of security groups, IDs of vswitches, instances);
  \<open>RunInstances\<close> and \<open>StopInstances\<close> may answer with a \<open>nil\<close> response
  (\<open>None\<close>), which the code tests; \<open>TagResources\<close> with its error, if any.
\<close>

record Client =
  DescribeImages :: "DescribeImagesRequest \<Rightarrow> string + Image list"
  DescribeSecurityGroups :: "DescribeSecurityGroupsRequest \<Rightarrow> string + string list"
  DescribeVSwitches :: "DescribeVSwitchesRequest \<Rightarrow> string + string list"
  RunInstances :: "RunInstancesRequest \<Rightarrow> string + string list option"
  DescribeInstances :: "DescribeInstancesRequest \<Rightarrow> string + Instance list"
  StopInstances :: "StopInstancesRequest \<Rightarrow> string + InstanceResponse list option"
  TagResources :: "TagResourcesRequest \<Rightarrow> string option"
  waitForInstancesStatus ::
    "string \<Rightarrow> string list \<Rightarrow> string \<Rightarrow> int \<Rightarrow> string + Instance list option"

text \<open>
  What a function does to the outside: the requests it submits to the provider
  and the failures it registers with the metrics collector
  (\<open>metrics.RegisterFailedInstanceCreate\<close> with name, namespace and reason),
  in the order of the program. Every function that talks to the provider
  returns its result together with this list. Logging (\<open>klog\<close>) and
  \<open>time.Sleep\<close> are left out.

  \<open>waitForInstancesStatus\<close> polls the provider through \<open>WaitForResult\<close>, which
  is not among the examined sources: its outcome for a region, a list of IDs, a
  status and a timeout is a field of the client above, and its polling requests
  are not listed.
\<close>

datatype call =
    DescribeImagesCall DescribeImagesRequest
  | DescribeSecurityGroupsCall DescribeSecurityGroupsRequest
  | DescribeVSwitchesCall DescribeVSwitchesRequest
  | RunInstancesCall RunInstancesRequest
  | DescribeInstancesCall DescribeInstancesRequest
  | StopInstancesCall StopInstancesRequest
  | TagResourcesCall TagResourcesRequest
  | RegisterFailedInstanceCreate string string string

fun isStopInstancesCall :: "call \<Rightarrow> bool" where
  "isStopInstancesCall (StopInstancesCall r) = True"
| "isStopInstancesCall c = False"

fun isTagResourcesCall :: "call \<Rightarrow> bool" where
  "isTagResourcesCall (TagResourcesCall r) = True"
| "isTagResourcesCall c = False"

fun isRunInstancesCall :: "call \<Rightarrow> bool" where
  "isRunInstancesCall (RunInstancesCall r) = True"
| "isRunInstancesCall c = False"

text \<open>
  The errors of \<open>mapierrors\<close>: \<open>InvalidMachineConfiguration\<close> builds a machine
  error with the reason \<open>InvalidConfigurationMachineError\<close>, \<open>CreateMachine\<close> one
  with the reason \<open>CreateMachineError\<close>. The message is kept as the format and
  its arguments.
\<close>

datatype message =
    ErrorGettingImageID err
  | ErrorGettingSecurityGroupsID err
  | ErrorGettingVSwitchID err
  | UnableToGetClusterIDForMachine string
  | InvalidInstanceTenancy string string string
  | ErrorCreatingECSInstance string
  | UnexpectedReservation
  | ErrorWaitingECSInstance string
  | ECSInstanceNotFound string

datatype MachineError =
    InvalidMachineConfiguration message
  | CreateMachine message

section \<open>Decimal text of an integer\<close>

text \<open>\<open>strconv.FormatInt(i, 10)\<close> and \<open>strconv.FormatBool\<close>.\<close>

fun formatNat :: "nat \<Rightarrow> string" where
  "formatNat n =
     (if n < 10 then [''0123456789'' ! n]
      else formatNat (n div 10) @ [''0123456789'' ! (n mod 10)])"

declare formatNat.simps [simp del]

definition FormatInt :: "int \<Rightarrow> string" where
  "FormatInt i = (if i < 0 then CHR ''-'' # formatNat (nat (- i)) else formatNat (nat i))"

definition FormatBool :: "bool \<Rightarrow> string" where
  "FormatBool b = (if b then ''true'' else ''false'')"

section \<open>Resolving images, security groups and vswitches\<close>

definition getImageID ::
  "Client \<Rightarrow> ObjectKey \<Rightarrow> ProviderConfig \<Rightarrow> (err + string) \<times> call list" where
  "getImageID client machine machineProviderConfig =
     (let request = \<lparr>img_ImageId = ImageID machineProviderConfig,
                      img_RegionId = RegionID machineProviderConfig,
                      img_ShowExpired = FormatBool True,
                      img_Scheme = ''https''\<rparr>
      in case DescribeImages client request of
           Inl e \<Rightarrow>
             (Inl (ErrorDescribingImages e),
              [DescribeImagesCall request,
               RegisterFailedInstanceCreate (Name machine) (Namespace machine) e])
         | Inr images \<Rightarrow>
             (case images of
                [] \<Rightarrow> (Inl NoImageFound, [DescribeImagesCall request])
              | img # rest \<Rightarrow>
                  if ImageStatus img \<noteq> EcsImageStatusAvailable
                  then (Inl (InvalidImageStatus (ImageID machineProviderConfig)
                               (ImageStatus img)),
                        [DescribeImagesCall request])
                  else (Inr (ImageId img), [DescribeImagesCall request])))"

text \<open>\<open>buildDescribeSecurityGroupsTag\<close> and \<open>buildDescribeVSwitchesTag\<close> fill a
  slice of the length of \<open>tags\<close>, index by index.\<close>

definition buildDescribeSecurityGroupsTag :: "Tag list \<Rightarrow> Tag list" where
  "buildDescribeSecurityGroupsTag tags = map (\<lambda>tag. \<lparr>Key = Key tag, Value = Value tag\<rparr>) tags"

definition buildDescribeVSwitchesTag :: "Tag list \<Rightarrow> Tag list" where
  "buildDescribeVSwitchesTag tags = map (\<lambda>tag. \<lparr>Key = Key tag, Value = Value tag\<rparr>) tags"

fun collectSecurityGroupIDs :: "string list \<Rightarrow> string list \<Rightarrow> string list" where
  "collectSecurityGroupIDs securityGroupIDs [] = securityGroupIDs"
| "collectSecurityGroupIDs securityGroupIDs (sg # rest) =
     collectSecurityGroupIDs (securityGroupIDs @ [sg]) rest"

definition getSecurityGroupIDByTags ::
  "Client \<Rightarrow> ObjectKey \<Rightarrow> ProviderConfig \<Rightarrow> Tag list \<Rightarrow> (err + string list) \<times> call list" where
  "getSecurityGroupIDByTags client machine machineProviderConfig tags =
     (let request = \<lparr>sg_VpcId = VpcID machineProviderConfig,
                      sg_ResourceGroupId = ResourceGroupID machineProviderConfig,
                      sg_RegionId = RegionID machineProviderConfig,
                      sg_Tag = buildDescribeSecurityGroupsTag tags,
                      sg_Scheme = ''https''\<rparr>
      in case DescribeSecurityGroups client request of
           Inl e \<Rightarrow>
             (Inl (ErrorDescribingSecurityGroup e),
              [DescribeSecurityGroupsCall request,
               RegisterFailedInstanceCreate (Name machine) (Namespace machine) e])
         | Inr groups \<Rightarrow>
             if length groups < 1
             then (Inl NoSecurityGroupForTags, [DescribeSecurityGroupsCall request])
             else (Inr (collectSecurityGroupIDs [] groups),
                   [DescribeSecurityGroupsCall request]))"

text \<open>
  \<open>getSecurityGroupIDs\<close>: the loop over the configured entries. An entry with
  an ID adds it; an entry without an ID and with tags adds the IDs found for the
  tags, and a failure of that query ends the whole call; an entry with neither
  adds nothing.
\<close>

fun getSecurityGroupIDs_loop ::
  "Client \<Rightarrow> ObjectKey \<Rightarrow> ProviderConfig \<Rightarrow> string list \<Rightarrow> ResourceReference list
     \<Rightarrow> (err + string list) \<times> call list" where
  "getSecurityGroupIDs_loop client machine cfg securityGroupIDs [] =
     (Inr securityGroupIDs, [])"
| "getSecurityGroupIDs_loop client machine cfg securityGroupIDs (sg # rest) =
     (if ID sg \<noteq> []
      then getSecurityGroupIDs_loop client machine cfg (securityGroupIDs @ [ID sg]) rest
      else case Tags sg of
             None \<Rightarrow> getSecurityGroupIDs_loop client machine cfg securityGroupIDs rest
           | Some tags \<Rightarrow>
               (case getSecurityGroupIDByTags client machine cfg tags of
                  (Inl e, calls) \<Rightarrow> (Inl e, calls)
                | (Inr ids, calls) \<Rightarrow>
                    (case getSecurityGroupIDs_loop client machine cfg
                            (securityGroupIDs @ ids) rest of
                       (r, calls') \<Rightarrow> (r, calls @ calls'))))"

definition getSecurityGroupIDs ::
  "Client \<Rightarrow> ObjectKey \<Rightarrow> ProviderConfig \<Rightarrow> (err + string list) \<times> call list" where
  "getSecurityGroupIDs client machine machineProviderConfig =
     (if length (SecurityGroups machineProviderConfig) = 0
      then (Inl NoSecurityConfiguration, [])
      else case getSecurityGroupIDs_loop client machine machineProviderConfig []
                  (SecurityGroups machineProviderConfig) of
             (Inl e, calls) \<Rightarrow> (Inl e, calls)
           | (Inr securityGroupIDs, calls) \<Rightarrow>
               if length securityGroupIDs = 0
               then (Inl NoSecurityGroupIDsFound, calls)
               else (Inr securityGroupIDs, calls))"

definition getVSwitchIDFromTags ::
  "Client \<Rightarrow> ObjectKey \<Rightarrow> ProviderConfig \<Rightarrow> (err + string) \<times> call list" where
  "getVSwitchIDFromTags client machine mpc =
     (let request = \<lparr>vsw_Scheme = ''https'',
                      vsw_RegionId = RegionID mpc,
                      vsw_VpcId = VpcID mpc,
                      vsw_Tag = buildDescribeVSwitchesTag
                                  (case VSwitch_Tags mpc of None \<Rightarrow> [] | Some tags \<Rightarrow> tags)\<rparr>
      in case DescribeVSwitches client request of
           Inl e \<Rightarrow>
             (Inl (ErrorDescribingVSwitches e),
              [DescribeVSwitchesCall request,
               RegisterFailedInstanceCreate (Name machine) (Namespace machine) e])
         | Inr vswitches \<Rightarrow>
             (case vswitches of
                [] \<Rightarrow> (Inl NoVSwitchesForTags, [DescribeVSwitchesCall request])
              | vsw # rest \<Rightarrow> (Inr vsw, [DescribeVSwitchesCall request])))"

definition getVSwitchID ::
  "Client \<Rightarrow> ObjectKey \<Rightarrow> ProviderConfig \<Rightarrow> (err + string) \<times> call list" where
  "getVSwitchID client machine machineProviderConfig =
     (if VSwitch_ID machineProviderConfig = []
         \<and> (case VSwitch_Tags machineProviderConfig of None \<Rightarrow> True
             | Some tags \<Rightarrow> length tags = 0)
      then (Inl NoVSwitchConfiguration, [])
      else if VSwitch_ID machineProviderConfig \<noteq> []
      then (Inr (VSwitch_ID machineProviderConfig), [])
      else if VSwitch_Tags machineProviderConfig \<noteq> None
      then getVSwitchIDFromTags client machine machineProviderConfig
      else (Inl NoVSwitchFound, []))"

section \<open>Launching an instance\<close>

text \<open>
  \<open>runInstances\<close> in four steps. The body of the loop over the data disks
  (lines 182 to 211 of the source):
\<close>

definition runInstancesDataDisk :: "Pkg \<Rightarrow> DataDiskProperties \<Rightarrow> RunInstancesDataDisk" where
  "runInstancesDataDisk K dataDisk =
     \<lparr>rd_Size = FormatInt (dd_Size dataDisk),
      rd_Category = dd_Category dataDisk,
      rd_Encrypted = FormatBool (dd_DiskEncryption dataDisk = AlibabaDiskEncryptionEnabled K),
      rd_DiskName = (if dd_Name dataDisk \<noteq> [] then dd_Name dataDisk else []),
      rd_SnapshotId = (if dd_SnapshotID dataDisk \<noteq> [] then dd_SnapshotID dataDisk else []),
      rd_PerformanceLevel =
        (if dd_PerformanceLevel dataDisk \<noteq> [] then dd_PerformanceLevel dataDisk else []),
      rd_KMSKeyId = (if dd_KMSKeyID dataDisk \<noteq> [] then dd_KMSKeyID dataDisk else []),
      rd_DeleteWithInstance =
        (if dd_DiskPreservation dataDisk = DeleteWithInstance K then FormatBool True else [])\<rparr>"

fun runInstancesDataDisks ::
  "Pkg \<Rightarrow> RunInstancesDataDisk list \<Rightarrow> DataDiskProperties list \<Rightarrow> RunInstancesDataDisk list" where
  "runInstancesDataDisks K dataDisks [] = dataDisks"
| "runInstancesDataDisks K dataDisks (dataDisk # rest) =
     runInstancesDataDisks K (dataDisks @ [runInstancesDataDisk K dataDisk]) rest"

text \<open>
  The request as it stands before the tenancy is set (lines 109 to 219): every
  field that the code assigns, and the zero value where the assignment is under a
  condition that does not hold.
\<close>

definition runInstancesRequest_fields ::
  "Pkg \<Rightarrow> Machine \<Rightarrow> ProviderConfig \<Rightarrow> string \<Rightarrow> string \<Rightarrow> string list \<Rightarrow> string \<Rightarrow> string
     \<Rightarrow> RunInstancesRequest" where
  "runInstancesRequest_fields K machine machineProviderConfig userData
       imageID securityGroupIDs vSwitchID clusterID =
     \<lparr>run_Scheme = ''https'',
      run_RegionId = RegionID machineProviderConfig,
      run_ResourceGroupId =
        (if ResourceGroupID machineProviderConfig \<noteq> []
         then ResourceGroupID machineProviderConfig else []),
      run_SecurityGroupIds = securityGroupIDs,
      run_Tag = covertToRunInstancesTag
                  (buildTagList K (Name machine) clusterID (ConfigTags machineProviderConfig)),
      run_ImageId = imageID,
      run_InstanceType = InstanceType machineProviderConfig,
      run_InstanceName = Name machine,
      run_HostName = Name machine,
      run_Amount = FormatInt 1,
      run_MinAmount = FormatInt 1,
      run_RamRoleName =
        (if RAMRoleName machineProviderConfig \<noteq> []
         then RAMRoleName machineProviderConfig else []),
      run_InternetMaxBandwidthOut =
        (if Bandwidth_InternetMaxBandwidthOut machineProviderConfig > 0
         then FormatInt (Bandwidth_InternetMaxBandwidthOut machineProviderConfig) else []),
      run_InternetMaxBandwidthIn =
        (if Bandwidth_InternetMaxBandwidthIn machineProviderConfig \<noteq> 0
         then FormatInt (Bandwidth_InternetMaxBandwidthIn machineProviderConfig) else []),
      run_VSwitchId = vSwitchID,
      run_SystemDiskCategory = SystemDisk_Category machineProviderConfig,
      run_SystemDiskSize = FormatInt (SystemDisk_Size machineProviderConfig),
      run_SystemDiskDiskName =
        (if SystemDisk_Name machineProviderConfig \<noteq> []
         then SystemDisk_Name machineProviderConfig else []),
      run_SystemDiskPerformanceLevel =
        (if SystemDisk_PerformanceLevel machineProviderConfig \<noteq> []
         then SystemDisk_PerformanceLevel machineProviderConfig else []),
      run_DataDisk =
        (if length (DataDisks machineProviderConfig) > 0
         then Some (runInstancesDataDisks K [] (DataDisks machineProviderConfig)) else None),
      run_UserData = (if userData \<noteq> [] then userData else []),
      run_Tenancy = []\<rparr>"

text \<open>The switch on the tenancy (lines 221 to 235).\<close>

definition runInstances_tenancy ::
  "Pkg \<Rightarrow> ProviderConfig \<Rightarrow> RunInstancesRequest \<Rightarrow> MachineError + RunInstancesRequest" where
  "runInstances_tenancy K machineProviderConfig runInstancesRequest =
     (let instanceTenancy = Tenancy machineProviderConfig
      in if instanceTenancy = []
         then Inr (runInstancesRequest\<lparr>run_Tenancy := DefaultTenancy K\<rparr>)
         else if instanceTenancy = DefaultTenancy K \<or> instanceTenancy = HostTenancy K
         then Inr (runInstancesRequest\<lparr>run_Tenancy := instanceTenancy\<rparr>)
         else Inl (CreateMachine
                     (InvalidInstanceTenancy instanceTenancy (DefaultTenancy K) (HostTenancy K))))"

text \<open>The submission and the wait for the running state (lines 236 to 273).\<close>

definition runInstances_submit ::
  "Client \<Rightarrow> Machine \<Rightarrow> ProviderConfig \<Rightarrow> RunInstancesRequest
     \<Rightarrow> (MachineError + Instance) \<times> call list" where
  "runInstances_submit client machine machineProviderConfig runInstancesRequest =
     (case RunInstances client runInstancesRequest of
        Inl e \<Rightarrow>
          (Inl (CreateMachine (ErrorCreatingECSInstance e)),
           [RunInstancesCall runInstancesRequest,
            RegisterFailedInstanceCreate (Name machine) (Namespace machine) e])
      | Inr None \<Rightarrow>
          (Inl (CreateMachine UnexpectedReservation), [RunInstancesCall runInstancesRequest])
      | Inr (Some instanceIdSet) \<Rightarrow>
          if length instanceIdSet \<noteq> 1
          then (Inl (CreateMachine UnexpectedReservation),
                [RunInstancesCall runInstancesRequest])
          else
            (case waitForInstancesStatus client (RegionID machineProviderConfig)
                    [instanceIdSet ! 0] ECSInstanceStatusRunning InstanceDefaultTimeout of
               Inl e \<Rightarrow>
                 (Inl (CreateMachine (ErrorWaitingECSInstance e)),
                  [RunInstancesCall runInstancesRequest,
                   RegisterFailedInstanceCreate (Name machine) (Namespace machine) e])
             | Inr None \<Rightarrow>
                 (Inl (CreateMachine (ECSInstanceNotFound (instanceIdSet ! 0))),
                  [RunInstancesCall runInstancesRequest])
             | Inr (Some []) \<Rightarrow>
                 (Inl (CreateMachine (ECSInstanceNotFound (instanceIdSet ! 0))),
                  [RunInstancesCall runInstancesRequest])
             | Inr (Some (inst # rest)) \<Rightarrow>
                 (Inr inst, [RunInstancesCall runInstancesRequest])))"

definition runInstances ::
  "Pkg \<Rightarrow> Client \<Rightarrow> Machine \<Rightarrow> ProviderConfig \<Rightarrow> string
     \<Rightarrow> (MachineError + Instance) \<times> call list" where
  "runInstances K client machine machineProviderConfig userData =
     (let machineKey = \<lparr>Name = Name machine, Namespace = Namespace machine\<rparr>
      in case getImageID client machineKey machineProviderConfig of
           (Inl e, calls1) \<Rightarrow> (Inl (InvalidMachineConfiguration (ErrorGettingImageID e)), calls1)
         | (Inr imageID, calls1) \<Rightarrow>
       (case getSecurityGroupIDs client machineKey machineProviderConfig of
           (Inl e, calls2) \<Rightarrow>
             (Inl (InvalidMachineConfiguration (ErrorGettingSecurityGroupsID e)),
              calls1 @ calls2)
         | (Inr securityGroupIDs, calls2) \<Rightarrow>
       (case getVSwitchID client machineKey machineProviderConfig of
           (Inl e, calls3) \<Rightarrow>
             (Inl (InvalidMachineConfiguration (ErrorGettingVSwitchID e)),
              calls1 @ calls2 @ calls3)
         | (Inr vSwitchID, calls3) \<Rightarrow>
       (case getClusterID K machine of
           None \<Rightarrow>
             (Inl (InvalidMachineConfiguration (UnableToGetClusterIDForMachine (Name machine))),
              calls1 @ calls2 @ calls3)
         | Some clusterID \<Rightarrow>
       (case runInstances_tenancy K machineProviderConfig
               (runInstancesRequest_fields K machine machineProviderConfig userData
                  imageID securityGroupIDs vSwitchID clusterID) of
           Inl e \<Rightarrow> (Inl e, calls1 @ calls2 @ calls3)
         | Inr runInstancesRequest \<Rightarrow>
       (case runInstances_submit client machine machineProviderConfig runInstancesRequest of
           (r, calls4) \<Rightarrow> (r, calls1 @ calls2 @ calls3 @ calls4)))))))"

section \<open>Stopping instances\<close>

definition describeInstances ::
  "Client \<Rightarrow> string list \<Rightarrow> string \<Rightarrow> (err + Instance list) \<times> call list" where
  "describeInstances client instanceIds regionID =
     (if length instanceIds < 1 then (Inl InstanceIdsNotSpecified, [])
      else let describeInstancesRequest =
                 \<lparr>di_RegionId = regionID, di_Scheme = ''https'', di_InstanceIds = instanceIds\<rparr>
           in case DescribeInstances client describeInstancesRequest of
                Inl e \<Rightarrow> (Inl (ClientError e), [DescribeInstancesCall describeInstancesRequest])
              | Inr instances \<Rightarrow> (Inr instances, [DescribeInstancesCall describeInstancesRequest]))"

text \<open>The two loops of \<open>stopInstances\<close>: the IDs of the given instances, and the
  IDs of the described instances that are running.\<close>

fun stopInstances_ids :: "string list \<Rightarrow> Instance list \<Rightarrow> string list" where
  "stopInstances_ids instanceIDs [] = instanceIDs"
| "stopInstances_ids instanceIDs (inst # instances) =
     stopInstances_ids (instanceIDs @ [InstanceId inst]) instances"

fun stopInstances_running :: "string list \<Rightarrow> Instance list \<Rightarrow> string list" where
  "stopInstances_running needStoppedInstanceIDs [] = needStoppedInstanceIDs"
| "stopInstances_running needStoppedInstanceIDs (inst # existingInstances) =
     (if Status inst = ECSInstanceStatusRunning
      then stopInstances_running (needStoppedInstanceIDs @ [InstanceId inst]) existingInstances
      else stopInstances_running needStoppedInstanceIDs existingInstances)"

text \<open>
  \<open>stopInstances\<close> returns the instance responses of the stop call; a \<open>nil\<close>
  response gives the \<open>nil\<close> slice, the empty list.
\<close>

definition stopInstances ::
  "Client \<Rightarrow> string \<Rightarrow> Instance list \<Rightarrow> (err + InstanceResponse list) \<times> call list" where
  "stopInstances client regionID instances =
     (let instanceIDs = stopInstances_ids [] instances
      in case describeInstances client instanceIDs regionID of
           (Inl e, calls) \<Rightarrow> (Inl e, calls)
         | (Inr existingInstances, calls) \<Rightarrow>
             if length existingInstances < 1
             then (Inl (InstancesNotExist instanceIDs), calls)
             else let needStoppedInstanceIDs = stopInstances_running [] existingInstances;
                      stopInstancesRequest =
                        \<lparr>stop_RegionId = regionID, stop_Scheme = ''https'',
                         stop_InstanceId = needStoppedInstanceIDs\<rparr>
                  in case StopInstances client stopInstancesRequest of
                       Inl e \<Rightarrow>
                         (Inl (ErrorStoppingInstances e),
                          calls @ [StopInstancesCall stopInstancesRequest])
                     | Inr None \<Rightarrow> (Inr [], calls @ [StopInstancesCall stopInstancesRequest])
                     | Inr (Some instanceResponse) \<Rightarrow>
                         (Inr instanceResponse,
                          calls @ [StopInstancesCall stopInstancesRequest]))"

section \<open>Ordering instances by launch time\<close>

text \<open>
  \<open>instanceList.Less\<close>, on the two instances at the indices it is given.
  \<open>time.ParseInLocation\<close> with the layout \<open>formatISO8601\<close> is the standard
  library's: it is the parameter \<open>parse\<close>, which gives the instant of a text, or
  \<open>None\<close> where it returns an error. \<open>After\<close> compares two instants.
\<close>

definition Less :: "(string \<Rightarrow> int option) \<Rightarrow> Instance \<Rightarrow> Instance \<Rightarrow> bool" where
  "Less parse a b =
     (if StartTime a = [] \<and> StartTime b = [] then False
      else if StartTime a \<noteq> [] \<and> StartTime b = [] then False
      else if StartTime a = [] \<and> StartTime b \<noteq> [] then True
      else case parse (StartTime a) of
             None \<Rightarrow> False
           | Some iStartTime \<Rightarrow>
               (case parse (StartTime b) of
                  None \<Rightarrow> False
                | Some jStartTime \<Rightarrow> iStartTime > jStartTime))"

text \<open>
  \<open>sortInstances\<close> is \<open>sort.Sort\<close> on the instance list. The standard library
  sorts a short slice by insertion: for each index \<open>i\<close> from the second on, the
  element at \<open>i\<close> is swapped with its left neighbour as long as it is
  \<open>Less\<close> than that neighbour. \<open>insertInstance\<close> is this inner loop, the
  part of the slice on the left given from right to left; \<open>sortInstances\<close>
  runs it for each element.
\<close>

fun insertInstance :: "(string \<Rightarrow> int option) \<Rightarrow> Instance \<Rightarrow> Instance list \<Rightarrow> Instance list" where
  "insertInstance parse x [] = [x]"
| "insertInstance parse x (y # left) =
     (if Less parse x y then y # insertInstance parse x left else x # y # left)"

definition sortInstances :: "(string \<Rightarrow> int option) \<Rightarrow> Instance list \<Rightarrow> Instance list" where
  "sortInstances parse instances =
     rev (foldl (\<lambda>left x. insertInstance parse x left) [] instances)"

section \<open>Correcting the tags of an instance\<close>

text \<open>
  Modelled from the spec: \<open>tagResourceTags\<close>, a helper of the package that is
  not among the examined sources. It gives the tags of the tag-update call: the
  full required set, which is the name tag of the machine, the cluster-ownership
  tag of the cluster ID and the generic owned marker.
\<close>

definition tagResourceTags :: "Pkg \<Rightarrow> string \<Rightarrow> string \<Rightarrow> Tag list" where
  "tagResourceTags K clusterID machineName =
     [\<lparr>Key = clusterFilterName K, Value = machineName\<rparr>,
      \<lparr>Key = clusterFilterKeyPrefix K @ clusterID, Value = clusterFilterValue K\<rparr>,
      \<lparr>Key = clusterOwnedKey K, Value = clusterOwnedValue K\<rparr>]"

text \<open>The loop of \<open>correctExistingTags\<close> over the tags of the instance, with the
  three flags \<open>nameTagOk\<close>, \<open>clusterTagOk\<close> and \<open>ownedTagOk\<close>.\<close>

fun correctExistingTags_loop ::
  "Pkg \<Rightarrow> string \<Rightarrow> string \<Rightarrow> bool \<times> bool \<times> bool \<Rightarrow> InstanceTag list \<Rightarrow> bool \<times> bool \<times> bool" where
  "correctExistingTags_loop K machineName clusterID flags [] = flags"
| "correctExistingTags_loop K machineName clusterID (nameTagOk, clusterTagOk, ownedTagOk)
       (tag # tags) =
     (if TagKey tag \<noteq> [] \<and> TagValue tag \<noteq> []
      then correctExistingTags_loop K machineName clusterID
             (if TagKey tag = clusterFilterName K \<and> TagValue tag = machineName
              then True else nameTagOk,
              if TagKey tag = clusterFilterKeyPrefix K @ clusterID
                 \<and> TagValue tag = clusterFilterValue K
              then True else clusterTagOk,
              if TagKey tag = clusterOwnedKey K \<and> TagValue tag = clusterOwnedValue K
              then True else ownedTagOk)
             tags
      else correctExistingTags_loop K machineName clusterID
             (nameTagOk, clusterTagOk, ownedTagOk) tags)"

text \<open>
  \<open>correctExistingTags\<close> takes a pointer to the instance, \<open>None\<close> when it is
  \<open>nil\<close>, and returns an \<open>error\<close>, \<open>None\<close> when it is \<open>nil\<close>.
\<close>

definition correctExistingTags ::
  "Pkg \<Rightarrow> Client \<Rightarrow> Machine \<Rightarrow> string \<Rightarrow> Instance option \<Rightarrow> err option \<times> call list" where
  "correctExistingTags K client machine regionID instance =
     (case instance of
        None \<Rightarrow> (Some UnexpectedNilInstance, [])
      | Some inst \<Rightarrow>
          if InstanceId inst = [] then (Some UnexpectedNilInstance, [])
          else case getClusterID K machine of
                 None \<Rightarrow> (Some (UnableToGetClusterID (Name machine)), [])
               | Some clusterID \<Rightarrow>
                   (case correctExistingTags_loop K (Name machine) clusterID
                           (False, False, False) (InstanceTags inst) of
                      (nameTagOk, clusterTagOk, ownedTagOk) \<Rightarrow>
                        if \<not> nameTagOk \<or> \<not> clusterTagOk \<or> \<not> ownedTagOk
                        then let request =
                                   \<lparr>tag_Scheme = ''https'',
                                    tag_RegionId = regionID,
                                    tag_Tag = tagResourceTags K clusterID (Name machine),
                                    tag_ResourceId = [InstanceId inst],
                                    tag_ResourceType = ECSTagResourceTypeInstance\<rparr>
                             in (case TagResources client request of
                                   None \<Rightarrow> None
                                 | Some e \<Rightarrow> Some (ClientError e),
                                 [TagResourcesCall request])
                        else (None, [])))"

section \<open>Properties of the tag functions\<close>

lemma removeDuplicatedTags_loop_char:
  "dom m = Key ` set pre \<Longrightarrow>
   removeDuplicatedTags_loop m result tags =
     result @ map snd (filter (\<lambda>(i, t). Key t \<notin> Key ` set (take i (pre @ tags)))
                        (enumerate (length pre) tags))"
proof (induction tags arbitrary: m result pre)
  case Nil
  then show ?case by simp
next
  case (Cons entry tags)
  show ?case
  proof (cases "m (Key entry) = None")
    case True
    then have new: "Key entry \<notin> Key ` set pre"
      using Cons.prems by (metis domIff)
    have d: "dom (m(Key entry \<mapsto> True)) = Key ` set (pre @ [entry])"
      using Cons.prems by auto
    have "removeDuplicatedTags_loop m result (entry # tags) =
            removeDuplicatedTags_loop (m(Key entry \<mapsto> True)) (result @ [entry]) tags"
      using True by simp
    also have "\<dots> = (result @ [entry]) @
        map snd (filter (\<lambda>(i, t). Key t \<notin> Key ` set (take i ((pre @ [entry]) @ tags)))
                  (enumerate (length (pre @ [entry])) tags))"
      by (rule Cons.IH [OF d])
    also have "\<dots> = result @
        map snd (filter (\<lambda>(i, t). Key t \<notin> Key ` set (take i (pre @ entry # tags)))
                  (enumerate (length pre) (entry # tags)))"
      using new by simp
    finally show ?thesis .
  next
    case False
    then have old: "Key entry \<in> Key ` set pre"
      using Cons.prems by (metis domIff)
    then have d: "dom m = Key ` set (pre @ [entry])"
      using Cons.prems by auto
    have "removeDuplicatedTags_loop m result (entry # tags) =
            removeDuplicatedTags_loop m result tags"
      by (simp add: False)
    also have "\<dots> = result @
        map snd (filter (\<lambda>(i, t). Key t \<notin> Key ` set (take i ((pre @ [entry]) @ tags)))
                  (enumerate (length (pre @ [entry])) tags))"
      by (rule Cons.IH [OF d])
    also have "\<dots> = result @
        map snd (filter (\<lambda>(i, t). Key t \<notin> Key ` set (take i (pre @ entry # tags)))
                  (enumerate (length pre) (entry # tags)))"
      using old by simp
    finally show ?thesis .
  qed
qed

lemma buildTagList_loop_filter:
  "buildTagList_loop K rawTagList machineTags =
     rawTagList @ filter (\<lambda>t. \<not> HasPrefix (Key t) (clusterFilterKeyPrefix K)
                             \<and> Key t \<noteq> clusterFilterName K) machineTags"
  by (induction machineTags arbitrary: rawTagList) simp_all

text \<open>
  C6. The result of \<open>removeDuplicatedTags\<close> is the list of the tags that stand at
  an index before which their key does not occur, in the order of the input: the
  first occurrence of each key (keys compared as strings, so case-sensitively) and
  nothing else. Its keys are distinct and are the keys of the input.
\<close>

theorem removeDuplicatedTags_first_occurrences:
  "removeDuplicatedTags tags =
     map snd (filter (\<lambda>(i, t). Key t \<notin> Key ` set (take i tags)) (enumerate 0 tags))"
  using removeDuplicatedTags_loop_char [of Map.empty "[]" "[]" tags]
  by (simp add: removeDuplicatedTags_def)

end
